theory Spec2Isabelle
  imports Complex_Main "HOL-Library.Word"
begin

section \<open>void-cutter: common silence detection and excision\<close>

text \<open>
  A shallow embedding of the Go packages \<^verbatim>\<open>silence\<close> (\<^verbatim>\<open>DetectCommonSilence\<close>,
  \<^verbatim>\<open>isChunkSilent\<close>, \<^verbatim>\<open>createSilenceRegion\<close>, \<^verbatim>\<open>CutSilenceRegions\<close>), \<^verbatim>\<open>loudness\<close>
  (\<^verbatim>\<open>calculateRMSWithBitDepth\<close>) and \<^verbatim>\<open>audio\<close> (\<^verbatim>\<open>AudioData\<close>, \<^verbatim>\<open>GetFrameCount\<close>).

  Conventions of the embedding:
  \<^item> Go's \<^verbatim>\<open>int\<close> has 64 bits. \<^verbatim>\<open>CutSilenceRegions\<close> multiplies and adds frame indices
    that its caller chooses, so there every \<^verbatim>\<open>+\<close>, \<^verbatim>\<open>-\<close> and \<^verbatim>\<open>*\<close> on an \<^verbatim>\<open>int\<close> is the
    exact operation followed by \<open>wrap64\<close>, the wrap-around into
    \<open>-2\<^sup>6\<^sup>3 \<dots> 2\<^sup>6\<^sup>3 - 1\<close>. The detector multiplies \<^verbatim>\<open>ChunkSizeMs * SampleRate\<close>,
    multiplies frame indices inside a buffer by \<^verbatim>\<open>Channels\<close> and adds one chunk to a
    frame index below the smallest frame count; there \<^verbatim>\<open>int\<close> is \<open>int\<close> without
    wrap-around, which is the program as long as \<^verbatim>\<open>ChunkSizeMs * SampleRate\<close> and the
    smallest frame count plus one chunk stay below \<open>2\<^sup>6\<^sup>3\<close>.
  \<^item> Go's \<^verbatim>\<open>int32\<close> samples are \<open>32 word\<close>, read as signed numbers by \<open>sint\<close>.
  \<^item> Go's \<^verbatim>\<open>float64\<close> is carried by \<open>real\<close>; infinities and NaN are not values of the
    model. In \<^verbatim>\<open>CutSilenceRegions\<close>, where a product is truncated to an \<^verbatim>\<open>int\<close> and its
    last bit decides a frame, every conversion \<^verbatim>\<open>float64(i)\<close> and every \<^verbatim>\<open>+\<close>, \<^verbatim>\<open>-\<close>,
    \<^verbatim>\<open>*\<close>, \<^verbatim>\<open>/\<close> is the exact result rounded to binary64 by \<open>round64\<close> (to nearest,
    ties to even), as IEEE 754 prescribes. A result beyond the largest binary64 number
    (an infinity in Go) stays a number of that size here; the only such value that is
    used again is the argument of \<^verbatim>\<open>int(x)\<close>, which is out of range in both readings.
    A division by zero (an infinity or NaN in Go) gives 0 here; it can only happen in
    the durations of the result, when \<^verbatim>\<open>SampleRate\<close> or \<^verbatim>\<open>Channels\<close> is 0, and no
    property below reads those. In the detector and the classifier the operations are
    the exact ones.
  \<^item> \<^verbatim>\<open>int(x)\<close> on a \<^verbatim>\<open>float64\<close> discards the fraction. Where the result does not fit
    in 64 bits Go leaves the value to the implementation; the model gives the smallest
    \<^verbatim>\<open>int\<close>, as the amd64 instruction does.
  \<^item> A run-time panic (index or slice bound out of range, \<^verbatim>\<open>make\<close> with a negative
    length) and an error return are values of \<open>error\<close>; a function that can fail
    returns \<open>error + 'a\<close>, with \<open>Inl\<close> for the failure.
  \<^item> A \<^verbatim>\<open>*AudioData\<close> that may be nil is an \<open>AudioData option\<close>.
  \<^item> Output written by \<^verbatim>\<open>fmt.Printf\<close> is not modelled.
  \<^item> Two record fields cannot share a name: the field \<^verbatim>\<open>Duration\<close> of \<^verbatim>\<open>AudioData\<close> is
    \<open>AudioDuration\<close> here and the field \<^verbatim>\<open>Filename\<close> of \<^verbatim>\<open>CuttingResult\<close> is
    \<open>ResultFilename\<close>.
\<close>

subsection \<open>Data model\<close>

type_synonym int32 = "32 word"
type_synonym float64 = real

datatype error =
    NoAudioFiles        \<comment> \<open>\<^verbatim>\<open>no audio files provided\<close>\<close>
  | FormatMismatch      \<comment> \<open>\<^verbatim>\<open>all audio files must have the same sample rate and channel count\<close>\<close>
  | AudioDataNil        \<comment> \<open>\<^verbatim>\<open>audio data is nil\<close>\<close>
  | IndexOutOfRange     \<comment> \<open>panic: index out of range\<close>
  | SliceOutOfRange     \<comment> \<open>panic: slice bounds out of range\<close>
  | MakeOutOfRange      \<comment> \<open>panic: makeslice: len out of range\<close>

record AudioData =
  Samples :: "int32 list"
  SampleRate :: int
  Channels :: int
  BitDepth :: int
  AudioDuration :: float64
  Filename :: string

record SilenceRegion =
  StartFrame :: int
  EndFrame :: int
  Duration :: float64
  StartTime :: float64
  EndTime :: float64

record CuttingResult =
  OriginalDuration :: float64
  NewDuration :: float64
  RemovedDuration :: float64
  RegionsCut :: "SilenceRegion list"
  KeepDurationMs :: int
  ResultFilename :: string

subsection \<open>Go primitives\<close>

definition go_len :: "'a list \<Rightarrow> int" where
  "go_len xs = int (length xs)"

text \<open>64-bit two's complement: the value of an \<^verbatim>\<open>int\<close> operation whose exact result is
  \<open>x\<close>.\<close>

definition wrap64 :: "int \<Rightarrow> int" where
  "wrap64 x = (x + 2 ^ 63) mod 2 ^ 64 - 2 ^ 63"

definition add64 :: "int \<Rightarrow> int \<Rightarrow> int" where
  "add64 a b = wrap64 (a + b)"

definition sub64 :: "int \<Rightarrow> int \<Rightarrow> int" where
  "sub64 a b = wrap64 (a - b)"

definition mul64 :: "int \<Rightarrow> int \<Rightarrow> int" where
  "mul64 a b = wrap64 (a * b)"

text \<open>
  Rounding to binary64, to nearest with ties to even: \<open>e\<close> is the exponent of \<open>x\<close>,
  \<open>2 powi q\<close> the distance of neighbouring binary64 numbers around \<open>x\<close> (53
  significant bits; the smallest distance is \<open>2 powi - 1074\<close>), and \<open>n\<close> the
  multiple of it nearest to \<open>x\<close>.
\<close>

definition round64 :: "real \<Rightarrow> real" where
  "round64 x =
     (if x = 0 then 0
      else
        let e = \<lfloor>log 2 \<bar>x\<bar>\<rfloor>;
            q = max (e - 52) (- 1074);
            y = x / 2 powi q;
            f = \<lfloor>y\<rfloor>;
            d = y - real_of_int f;
            n = (if d < 1 / 2 then f
                 else if d > 1 / 2 then f + 1
                 else if even f then f else f + 1)
        in real_of_int n * 2 powi q)"

text \<open>The conversion \<^verbatim>\<open>float64(i)\<close> and the four operations on \<^verbatim>\<open>float64\<close>.\<close>

definition fromInt64 :: "int \<Rightarrow> float64" where
  "fromInt64 i = round64 (real_of_int i)"

definition fadd :: "float64 \<Rightarrow> float64 \<Rightarrow> float64" where
  "fadd a b = round64 (a + b)"

definition fsub :: "float64 \<Rightarrow> float64 \<Rightarrow> float64" where
  "fsub a b = round64 (a - b)"

definition fmul :: "float64 \<Rightarrow> float64 \<Rightarrow> float64" where
  "fmul a b = round64 (a * b)"

definition fdiv :: "float64 \<Rightarrow> float64 \<Rightarrow> float64" where
  "fdiv a b = round64 (a / b)"

text \<open>\<^verbatim>\<open>int(x)\<close> on a \<^verbatim>\<open>float64\<close>: the fraction is discarded (truncation towards zero);
  a value that does not fit in 64 bits gives the smallest \<^verbatim>\<open>int\<close>.\<close>

definition go_int :: "float64 \<Rightarrow> int" where
  "go_int x =
     (let t = (if 0 \<le> x then \<lfloor>x\<rfloor> else \<lceil>x\<rceil>)
      in if - (2 ^ 63) \<le> t \<and> t < 2 ^ 63 then t else - (2 ^ 63))"

text \<open>Integer division \<^verbatim>\<open>a / b\<close>, truncated towards zero; the callers exclude \<open>b = 0\<close>.\<close>

definition go_div :: "int \<Rightarrow> int \<Rightarrow> int" where
  "go_div a b = sgn a * sgn b * (\<bar>a\<bar> div \<bar>b\<bar>)"

text \<open>\<^verbatim>\<open>make([]int32, n)\<close>: a fresh slice of \<open>n\<close> zeros, of capacity \<open>n\<close>.\<close>

definition go_make :: "int \<Rightarrow> error + int32 list" where
  "go_make n = (if n < 0 then Inl MakeOutOfRange else Inr (replicate (nat n) 0))"

text \<open>The slice expressions \<^verbatim>\<open>s[:h]\<close> and \<^verbatim>\<open>s[l:]\<close> of a slice whose capacity is its length.\<close>

definition slice_to :: "'a list \<Rightarrow> int \<Rightarrow> error + 'a list" where
  "slice_to s h = (if 0 \<le> h \<and> h \<le> go_len s then Inr (take (nat h) s) else Inl SliceOutOfRange)"

definition slice_from :: "'a list \<Rightarrow> int \<Rightarrow> error + 'a list" where
  "slice_from s l = (if 0 \<le> l \<and> l \<le> go_len s then Inr (drop (nat l) s) else Inl SliceOutOfRange)"

text \<open>
  \<^verbatim>\<open>copy(dst, src)\<close> overwrites the first \<open>min (len dst) (len src)\<close> elements of \<open>dst\<close>;
  the value is the content of \<open>dst\<close> afterwards.
\<close>

definition go_copy :: "'a list \<Rightarrow> 'a list \<Rightarrow> 'a list" where
  "go_copy dst src = take (length dst) src @ drop (length src) dst"

subsection \<open>\<^verbatim>\<open>audio.AudioData\<close>\<close>

definition GetFrameCount :: "AudioData \<Rightarrow> int" where
  "GetFrameCount ad =
     (if Channels ad = 0 then 0 else go_div (go_len (Samples ad)) (Channels ad))"

subsection \<open>\<^verbatim>\<open>silence.CutSilenceRegions\<close>\<close>

text \<open>Line 26: \<^verbatim>\<open>keepDurationSec := float64(keepDurationMs) / 1000.0\<close>.\<close>

definition keepDurationSecOf :: "int \<Rightarrow> float64" where
  "keepDurationSecOf keepDurationMs = fdiv (fromInt64 keepDurationMs) 1000"

text \<open>
  The quantities one iteration of the loop computes for a region that is not skipped,
  from the length \<open>n\<close> of \<^verbatim>\<open>modifiedSamples\<close> at that moment.
\<close>

definition cutSamplesOf :: "AudioData \<Rightarrow> float64 \<Rightarrow> SilenceRegion \<Rightarrow> int" where
  \<comment> \<open>lines 46-48: \<^verbatim>\<open>cutDuration\<close>, \<^verbatim>\<open>cutFrames\<close>, \<^verbatim>\<open>cutSamples\<close>\<close>
  "cutSamplesOf audioData keepDurationSec region =
     (let cutDuration = fsub (Duration region) keepDurationSec;
          cutFrames = go_int (fmul cutDuration (fromInt64 (SampleRate audioData)))
      in mul64 cutFrames (Channels audioData))"

definition keepSamplesOf :: "AudioData \<Rightarrow> float64 \<Rightarrow> int" where
  \<comment> \<open>line 53\<close>
  "keepSamplesOf audioData keepDurationSec =
     mul64 (go_int (fmul keepDurationSec (fromInt64 (SampleRate audioData))))
       (Channels audioData)"

definition endSampleOf :: "AudioData \<Rightarrow> SilenceRegion \<Rightarrow> int \<Rightarrow> int" where
  \<comment> \<open>lines 52 and 56-58\<close>
  "endSampleOf audioData region n =
     (let endSample = mul64 (EndFrame region) (Channels audioData)
      in if endSample > n then n else endSample)"

definition startSampleOf :: "AudioData \<Rightarrow> SilenceRegion \<Rightarrow> int" where
  \<comment> \<open>lines 51 and 59-61\<close>
  "startSampleOf audioData region =
     (let startSample = mul64 (StartFrame region) (Channels audioData)
      in if startSample < 0 then 0 else startSample)"

definition cutStartSampleOf :: "AudioData \<Rightarrow> float64 \<Rightarrow> SilenceRegion \<Rightarrow> int \<Rightarrow> int" where
  \<comment> \<open>lines 64-68; the reassigned \<^verbatim>\<open>keepSamples\<close> of line 67 is never read again\<close>
  "cutStartSampleOf audioData keepDurationSec region n =
     (let startSample = startSampleOf audioData region;
          endSample = endSampleOf audioData region n;
          cutStartSample = add64 startSample (keepSamplesOf audioData keepDurationSec)
      in if cutStartSample > endSample then startSample else cutStartSample)"

definition actualCutSamplesOf :: "AudioData \<Rightarrow> float64 \<Rightarrow> SilenceRegion \<Rightarrow> int \<Rightarrow> int" where
  \<comment> \<open>lines 72-75\<close>
  "actualCutSamplesOf audioData keepDurationSec region n =
     (let actualCutSamples =
            sub64 (endSampleOf audioData region n)
              (cutStartSampleOf audioData keepDurationSec region n);
          cutSamples = cutSamplesOf audioData keepDurationSec region
      in if actualCutSamples > cutSamples then cutSamples else actualCutSamples)"

text \<open>
  Lines 78-80: the new slice, and the two \<^verbatim>\<open>copy\<close> calls that fill it through the
  sub-slices \<^verbatim>\<open>newSamples[:cutStartSample]\<close> and \<^verbatim>\<open>newSamples[cutStartSample:]\<close>.
\<close>

definition removeSamples :: "int32 list \<Rightarrow> int \<Rightarrow> int \<Rightarrow> error + int32 list" where
  "removeSamples modifiedSamples cutStartSample actualCutSamples =
     (case go_make (sub64 (go_len modifiedSamples) actualCutSamples) of
        Inl e \<Rightarrow> Inl e
      | Inr newSamples0 \<Rightarrow>
     (case slice_to newSamples0 cutStartSample of
        Inl e \<Rightarrow> Inl e
      | Inr dst1 \<Rightarrow>
     (case slice_to modifiedSamples cutStartSample of
        Inl e \<Rightarrow> Inl e
      | Inr src1 \<Rightarrow>
     (let newSamples1 = go_copy dst1 src1 @ drop (nat cutStartSample) newSamples0
      in case slice_from newSamples1 cutStartSample of
        Inl e \<Rightarrow> Inl e
      | Inr dst2 \<Rightarrow>
     (case slice_from modifiedSamples (add64 cutStartSample actualCutSamples) of
        Inl e \<Rightarrow> Inl e
      | Inr src2 \<Rightarrow>
        Inr (take (nat cutStartSample) newSamples1 @ go_copy dst2 src2))))))"

text \<open>Line 84, and lines 93-94 with the length of the final buffer.\<close>

definition samplesDuration :: "AudioData \<Rightarrow> int \<Rightarrow> float64" where
  "samplesDuration audioData n =
     fdiv (fdiv (fromInt64 n) (fromInt64 (SampleRate audioData)))
       (fromInt64 (Channels audioData))"

text \<open>
  The loop body (lines 38-88) on the loop's state: \<^verbatim>\<open>modifiedSamples\<close>,
  \<^verbatim>\<open>totalRemovedDuration\<close> and \<^verbatim>\<open>regionsCut\<close>.
\<close>

type_synonym cutState = "int32 list \<times> float64 \<times> SilenceRegion list"

definition cutRegion :: "AudioData \<Rightarrow> float64 \<Rightarrow> SilenceRegion \<Rightarrow> cutState \<Rightarrow> error + cutState" where
  "cutRegion audioData keepDurationSec region st =
     (case st of (modifiedSamples, totalRemovedDuration, regionsCut) \<Rightarrow>
        if Duration region \<le> keepDurationSec then Inr st
        else
          let n = go_len modifiedSamples;
              cutSamples = cutSamplesOf audioData keepDurationSec region;
              endSample = endSampleOf audioData region n;
              cutStartSample = cutStartSampleOf audioData keepDurationSec region n
          in if cutStartSample < endSample \<and> cutSamples > 0 then
               let actualCutSamples = actualCutSamplesOf audioData keepDurationSec region n
               in case removeSamples modifiedSamples cutStartSample actualCutSamples of
                    Inl e \<Rightarrow> Inl e
                  | Inr newSamples \<Rightarrow>
                      let actualCutDuration = samplesDuration audioData actualCutSamples
                      in Inr (newSamples, fadd totalRemovedDuration actualCutDuration,
                              region # regionsCut)
             else Inr st)"

text \<open>
  The loop of line 37 visits the regions from the last to the first: \<open>cutLoop\<close> is
  called on the reversed list.
\<close>

fun cutLoop :: "AudioData \<Rightarrow> float64 \<Rightarrow> SilenceRegion list \<Rightarrow> cutState \<Rightarrow> error + cutState" where
  "cutLoop audioData keepDurationSec [] st = Inr st"
| "cutLoop audioData keepDurationSec (region # regions) st =
     (case cutRegion audioData keepDurationSec region st of
        Inl e \<Rightarrow> Inl e
      | Inr st' \<Rightarrow> cutLoop audioData keepDurationSec regions st')"

definition CutSilenceRegions ::
  "AudioData option \<Rightarrow> SilenceRegion list \<Rightarrow> int \<Rightarrow> error + (AudioData \<times> CuttingResult)" where
  "CutSilenceRegions audioData silenceRegions keepDurationMs =
     (case audioData of
        None \<Rightarrow> Inl AudioDataNil
      | Some ad \<Rightarrow>
         (let originalDuration = AudioDuration ad;
              keepDurationSec = keepDurationSecOf keepDurationMs
          in (case go_make (go_len (Samples ad)) of
               Inl e \<Rightarrow> Inl e
             | Inr fresh \<Rightarrow>
          (case cutLoop ad keepDurationSec (rev silenceRegions)
                  (go_copy fresh (Samples ad), 0, []) of
               Inl e \<Rightarrow> Inl e
             | Inr (modifiedSamples, totalRemovedDuration, regionsCut) \<Rightarrow>
                 let newDuration = samplesDuration ad (go_len modifiedSamples)
                 in Inr (ad\<lparr>Samples := modifiedSamples, AudioDuration := newDuration\<rparr>,
                         \<lparr>OriginalDuration = originalDuration,
                          NewDuration = newDuration,
                          RemovedDuration = totalRemovedDuration,
                          RegionsCut = regionsCut,
                          KeepDurationMs = keepDurationMs,
                          ResultFilename = Filename ad\<rparr>)))))"

subsection \<open>\<^verbatim>\<open>silence.isChunkSilent\<close> and \<^verbatim>\<open>loudness.calculateRMSWithBitDepth\<close>\<close>

text \<open>The \<^verbatim>\<open>switch\<close> on the bit depth, the same in both functions.\<close>

definition normalizationFactor :: "int \<Rightarrow> float64" where
  "normalizationFactor bitDepth =
     (if bitDepth = 16 then 32768
      else if bitDepth = 24 then 8388608
      else if bitDepth = 32 then 2147483648
      else 32768)"

text \<open>
  The loop of lines 158-162 of \<^verbatim>\<open>isChunkSilent\<close> over the indices \<open>is\<close>, with the
  running \<^verbatim>\<open>sumSquares\<close>; reading \<^verbatim>\<open>Samples[i]\<close> outside the slice panics.
\<close>

fun sumSquaresLoop :: "int32 list \<Rightarrow> float64 \<Rightarrow> int list \<Rightarrow> float64 \<Rightarrow> error + float64" where
  "sumSquaresLoop samples factor [] sumSquares = Inr sumSquares"
| "sumSquaresLoop samples factor (i # is) sumSquares =
     (if 0 \<le> i \<and> i < go_len samples then
        let normalized = real_of_int (sint (samples ! nat i)) / factor
        in sumSquaresLoop samples factor is (sumSquares + normalized * normalized)
      else Inl IndexOutOfRange)"

definition isChunkSilent :: "AudioData \<Rightarrow> int \<Rightarrow> int \<Rightarrow> float64 \<Rightarrow> error + bool" where
  "isChunkSilent audioData startFrame endFrame thresholdDBFS =
     (if startFrame \<ge> endFrame \<or> endFrame > GetFrameCount audioData then Inr True
      else
        let channels = Channels audioData;
            startSample = startFrame * channels;
            endSample0 = endFrame * channels;
            endSample = (if endSample0 > go_len (Samples audioData)
                         then go_len (Samples audioData) else endSample0);
            sampleCount = endSample - startSample;
            factor = normalizationFactor (BitDepth audioData)
        in case sumSquaresLoop (Samples audioData) factor [startSample .. endSample - 1] 0 of
             Inl e \<Rightarrow> Inl e
           | Inr sumSquares \<Rightarrow>
               if sampleCount = 0 then Inr True
               else
                 let rms = sqrt (sumSquares / real_of_int sampleCount)
                 in if rms = 0 then Inr True
                    else Inr (20 * log 10 rms \<le> thresholdDBFS))"

text \<open>
  The value of the local \<^verbatim>\<open>rms\<close> (line 168) for a frame range that passes the bounds
  check of line 129 and has at least one sample.
\<close>

definition chunkRMS :: "AudioData \<Rightarrow> int \<Rightarrow> int \<Rightarrow> error + float64" where
  "chunkRMS audioData startFrame endFrame =
     (let channels = Channels audioData;
          startSample = startFrame * channels;
          endSample0 = endFrame * channels;
          endSample = (if endSample0 > go_len (Samples audioData)
                       then go_len (Samples audioData) else endSample0);
          sampleCount = endSample - startSample;
          factor = normalizationFactor (BitDepth audioData)
      in case sumSquaresLoop (Samples audioData) factor [startSample .. endSample - 1] 0 of
           Inl e \<Rightarrow> Inl e
         | Inr sumSquares \<Rightarrow> Inr (sqrt (sumSquares / real_of_int sampleCount)))"

text \<open>\<^verbatim>\<open>calculateRMSWithBitDepth\<close>: the loop of lines 75-85, then the function.\<close>

fun clampedSumSquares :: "float64 \<Rightarrow> int32 list \<Rightarrow> float64 \<Rightarrow> float64" where
  "clampedSumSquares maxValue [] sumSquares = sumSquares"
| "clampedSumSquares maxValue (sample # samples) sumSquares =
     (let normalized0 = real_of_int (sint sample) / maxValue;
          normalized = (if normalized0 > 1 then 1
                        else if normalized0 < - 1 then - 1 else normalized0)
      in clampedSumSquares maxValue samples (sumSquares + normalized * normalized))"

definition calculateRMSWithBitDepth :: "int32 list \<Rightarrow> int \<Rightarrow> float64" where
  "calculateRMSWithBitDepth samples bitDepth =
     (if go_len samples = 0 then 0
      else sqrt (clampedSumSquares (normalizationFactor bitDepth) samples 0
                   / real_of_int (go_len samples)))"

subsection \<open>\<^verbatim>\<open>silence.DetectCommonSilence\<close>\<close>

record SilenceDetectionConfig =
  ThresholdDBFS :: float64
  MinDurationMs :: int
  ChunkSizeMs :: int

record DetectionResult =
  CommonSilenceRegions :: "SilenceRegion list"
  IndividualSilence :: "SilenceRegion list list"
  TotalCommonSilence :: float64
  AudioFiles :: "AudioData list"
  Config :: SilenceDetectionConfig

definition createSilenceRegion :: "int \<Rightarrow> int \<Rightarrow> int \<Rightarrow> SilenceRegion" where
  "createSilenceRegion startFrame endFrame sampleRate =
     (let startTime = real_of_int startFrame / real_of_int sampleRate;
          endTime = real_of_int endFrame / real_of_int sampleRate;
          duration = endTime - startTime
      in \<lparr>StartFrame = startFrame, EndFrame = endFrame, Duration = duration,
          StartTime = startTime, EndTime = endTime\<rparr>)"

text \<open>Lines 43-47: the files after the first are compared with the first.\<close>

fun formatsMatch :: "AudioData \<Rightarrow> AudioData list \<Rightarrow> bool" where
  "formatsMatch reference [] = True"
| "formatsMatch reference (audio # rest) =
     (if SampleRate audio \<noteq> SampleRate reference \<or> Channels audio \<noteq> Channels reference
      then False else formatsMatch reference rest)"

text \<open>Lines 57-61: the smallest frame count.\<close>

fun minFramesLoop :: "AudioData list \<Rightarrow> int \<Rightarrow> int" where
  "minFramesLoop [] minFrames = minFrames"
| "minFramesLoop (audio # rest) minFrames =
     minFramesLoop rest
       (if GetFrameCount audio < minFrames then GetFrameCount audio else minFrames)"

text \<open>Lines 77-83: is the chunk silent in every file? The loop stops at the first file
  in which it is not.\<close>

fun isCommonSilence :: "AudioData list \<Rightarrow> int \<Rightarrow> int \<Rightarrow> float64 \<Rightarrow> error + bool" where
  "isCommonSilence [] frameStart frameEnd thresholdDBFS = Inr True"
| "isCommonSilence (audioData # rest) frameStart frameEnd thresholdDBFS =
     (case isChunkSilent audioData frameStart frameEnd thresholdDBFS of
        Inl e \<Rightarrow> Inl e
      | Inr silent \<Rightarrow>
          if \<not> silent then Inr False
          else isCommonSilence rest frameStart frameEnd thresholdDBFS)"

text \<open>
  The scan of lines 70-102, from \<open>frameStart\<close> on, with the loop's variables
  \<^verbatim>\<open>currentSilenceStart\<close> and \<^verbatim>\<open>commonSilenceRegions\<close>. The loop ends only if
  \<open>frameStart\<close> reaches \<open>minFrames\<close>, so the scan is a partial function: \<open>None\<close> is a
  scan that never ends.
\<close>

partial_function (option) scanChunks ::
  "AudioData list \<Rightarrow> SilenceDetectionConfig \<Rightarrow> int \<Rightarrow> int \<Rightarrow> int \<Rightarrow> int \<Rightarrow> int
     \<Rightarrow> SilenceRegion list \<Rightarrow> (error + int \<times> SilenceRegion list) option" where
  "scanChunks audioFiles config sampleRate chunkFrames minFrames frameStart
       currentSilenceStart commonSilenceRegions =
     (if frameStart < minFrames then
        let frameEnd0 = frameStart + chunkFrames;
            frameEnd = (if frameEnd0 > minFrames then minFrames else frameEnd0)
        in case isCommonSilence audioFiles frameStart frameEnd (ThresholdDBFS config) of
             Inl e \<Rightarrow> Some (Inl e)
           | Inr silent \<Rightarrow>
               if silent then
                 scanChunks audioFiles config sampleRate chunkFrames minFrames
                   (frameStart + chunkFrames)
                   (if currentSilenceStart = - 1 then frameStart else currentSilenceStart)
                   commonSilenceRegions
               else if currentSilenceStart \<noteq> - 1 then
                 let silenceRegion =
                       createSilenceRegion currentSilenceStart frameStart sampleRate
                 in scanChunks audioFiles config sampleRate chunkFrames minFrames
                      (frameStart + chunkFrames) (- 1)
                      (if Duration silenceRegion \<ge> real_of_int (MinDurationMs config) / 1000
                       then commonSilenceRegions @ [silenceRegion]
                       else commonSilenceRegions)
               else
                 scanChunks audioFiles config sampleRate chunkFrames minFrames
                   (frameStart + chunkFrames) currentSilenceStart commonSilenceRegions
      else Some (Inr (currentSilenceStart, commonSilenceRegions)))"

text \<open>Lines 113-116: the sum of the durations.\<close>

fun totalDuration :: "SilenceRegion list \<Rightarrow> float64 \<Rightarrow> float64" where
  "totalDuration [] totalCommonSilence = totalCommonSilence"
| "totalDuration (region # regions) totalCommonSilence =
     totalDuration regions (totalCommonSilence + Duration region)"

definition DetectCommonSilence ::
  "AudioData list \<Rightarrow> SilenceDetectionConfig \<Rightarrow> (error + DetectionResult) option" where
  "DetectCommonSilence audioFiles config =
     (case audioFiles of
        [] \<Rightarrow> Some (Inl NoAudioFiles)
      | reference # others \<Rightarrow>
         (if \<not> formatsMatch reference others then Some (Inl FormatMismatch)
          else
            let chunkFrames0 = go_div (ChunkSizeMs config * SampleRate reference) 1000;
                chunkFrames = (if chunkFrames0 = 0 then 1 else chunkFrames0);
                minFrames = minFramesLoop others (GetFrameCount reference)
            in (case scanChunks audioFiles config (SampleRate reference) chunkFrames minFrames
                       0 (- 1) [] of
                  None \<Rightarrow> None
                | Some (Inl e) \<Rightarrow> Some (Inl e)
                | Some (Inr (currentSilenceStart, scanned)) \<Rightarrow>
                    let commonSilenceRegions =
                          (if currentSilenceStart \<noteq> - 1 then
                             let silenceRegion =
                                   createSilenceRegion currentSilenceStart minFrames
                                     (SampleRate reference)
                             in if Duration silenceRegion
                                     \<ge> real_of_int (MinDurationMs config) / 1000
                                then scanned @ [silenceRegion] else scanned
                           else scanned)
                    in Some (Inr \<lparr>CommonSilenceRegions = commonSilenceRegions,
                                  IndividualSilence = [],
                                  TotalCommonSilence = totalDuration commonSilenceRegions 0,
                                  AudioFiles = audioFiles,
                                  Config = config\<rparr>))))"

section \<open>Concrete inputs\<close>

text \<open>
  The buffers, regions and configurations on which the theorems below are evaluated.
  Sample rates and durations are chosen so that every time value that decides a result
  is a dyadic fraction (\<open>1/8\<close>, \<open>1/4\<close>, \<open>1/2\<close>, ...), which binary64 holds exactly.
\<close>

definition pcmAudio :: "int32 list \<Rightarrow> int \<Rightarrow> int \<Rightarrow> AudioData" where
  "pcmAudio samples sampleRate channels =
     \<lparr>Samples = samples, SampleRate = sampleRate, Channels = channels, BitDepth = 16,
      AudioDuration = real (length samples) / real_of_int sampleRate / real_of_int channels,
      Filename = ''a.wav''\<rparr>"

text \<open>Four mono samples at 8 Hz, and a region of one second that starts at frame 2 and
  ends six frames after the end of the buffer.\<close>

definition shortAudio :: AudioData where
  "shortAudio = pcmAudio [1, 2, 3, 4] 8 1"

definition overhangRegion :: SilenceRegion where
  "overhangRegion = createSilenceRegion 2 10 8"

text \<open>Six mono samples at 2 Hz, and the region of frames 1 to 5 (two seconds).\<close>

definition slowAudio :: AudioData where
  "slowAudio = pcmAudio [10, 11, 12, 13, 14, 15] 2 1"

definition slowRegion :: SilenceRegion where
  "slowRegion = createSilenceRegion 1 5 2"

text \<open>Six stereo frames at 8 Hz, and a region of a quarter of a second.\<close>

definition stereoAudio :: AudioData where
  "stereoAudio = pcmAudio [1, 2, 3, 4, 5, 6, 7, 8, 9, 10, 11, 12] 8 2"

definition shortRegion :: SilenceRegion where
  "shortRegion = createSilenceRegion 2 4 8"

text \<open>
  Four mono samples at 10 Hz, and the region of frames 0 to 3 as \<^verbatim>\<open>createSilenceRegion\<close>
  builds it in binary64: \<^verbatim>\<open>3/10.0\<close> is \<open>5404319552844595 / 2\<^sup>5\<^sup>4\<close>, a little below
  three tenths.
\<close>

definition tenHzAudio :: AudioData where
  "tenHzAudio =
     \<lparr>Samples = [1, 2, 3, 4], SampleRate = 10, Channels = 1, BitDepth = 16,
      AudioDuration = 3602879701896397 / 9007199254740992, Filename = ''a.wav''\<rparr>"

definition tenHzRegion :: SilenceRegion where
  "tenHzRegion =
     \<lparr>StartFrame = 0, EndFrame = 3, Duration = 5404319552844595 / 18014398509481984,
      StartTime = 0, EndTime = 5404319552844595 / 18014398509481984\<rparr>"

text \<open>
  Twelve mono samples at 8 Hz, and a region of one second whose frames are the last
  four that an \<^verbatim>\<open>int\<close> can number: \<open>2\<^sup>6\<^sup>3 - 4\<close> to \<open>2\<^sup>6\<^sup>3 - 1\<close>.
\<close>

definition twelveAudio :: AudioData where
  "twelveAudio = pcmAudio [1, 2, 3, 4, 5, 6, 7, 8, 9, 10, 11, 12] 8 1"

definition lastFramesRegion :: SilenceRegion where
  "lastFramesRegion =
     \<lparr>StartFrame = 9223372036854775804, EndFrame = 9223372036854775807, Duration = 1,
      StartTime = 0, EndTime = 1\<rparr>"

text \<open>
  Two frames of three channels at 8 Hz, and a region of one second from frame 0 to
  frame \<open>(2\<^sup>6\<^sup>4 + 2) / 3\<close>, a frame number below \<open>2\<^sup>6\<^sup>3\<close> whose product with 3
  is \<open>2\<^sup>6\<^sup>4 + 2\<close>.
\<close>

definition threeChannelAudio :: AudioData where
  "threeChannelAudio = pcmAudio [1, 2, 3, 4, 5, 6] 8 3"

definition farRegion :: SilenceRegion where
  "farRegion =
     \<lparr>StartFrame = 0, EndFrame = 6148914691236517206, Duration = 1,
      StartTime = 0, EndTime = 1\<rparr>"

text \<open>
  Two mono tracks at 8 Hz, of 7 and 6 frames; the first is at full scale in frames 0
  and 3 and digital silence elsewhere, the second is digital silence. Chunks of 125 ms
  are one frame long, and 250 ms are two frames.
\<close>

definition clickTrack :: AudioData where
  "clickTrack = pcmAudio [- 32768, 0, 0, - 32768, 0, 0, 0] 8 1"

definition quietTrack :: AudioData where
  "quietTrack = pcmAudio [0, 0, 0, 0, 0, 0] 8 1"



text \<open>One sample of a 16-bit track that lies outside the 16-bit range.\<close>

definition loudAudio :: AudioData where
  "loudAudio = pcmAudio [65536] 8 1"

section \<open>Properties of the Region Excisor\<close>

subsection \<open>Wrap-around and rounding on values that fit\<close>

lemma wrap64_id: "- (2 ^ 63) \<le> x \<Longrightarrow> x < 2 ^ 63 \<Longrightarrow> wrap64 x = x"
  by (simp add: wrap64_def)

lemma round64_exact:
  assumes x: "x = real_of_int m * 2 powi k" and m: "\<bar>m\<bar> < 2 ^ 53" and k: "- 1074 \<le> k"
  shows "round64 x = x"
proof (cases "x = 0")
  case True
  then show ?thesis by (simp add: round64_def)
next
  case False
  define e where "e = \<lfloor>log 2 \<bar>x\<bar>\<rfloor>"
  define q where "q = max (e - 52) (- 1074)"
  have xpos: "0 < \<bar>x\<bar>" using False by simp
  have "real_of_int e \<le> log 2 \<bar>x\<bar>" by (simp add: e_def)
  then have "2 powr real_of_int e \<le> 2 powr log 2 \<bar>x\<bar>"
    by (simp add: powr_mono)
  then have lo: "2 powi e \<le> \<bar>x\<bar>"
    using xpos by (simp add: powr_real_of_int')
  have "\<bar>x\<bar> = real_of_int \<bar>m\<bar> * 2 powi k"
    by (simp add: x abs_mult)
  also have "\<dots> < 2 ^ 53 * 2 powi k"
  proof -
    from m have "real_of_int \<bar>m\<bar> < real_of_int (2 ^ 53)" by (rule iffD2 [OF of_int_less_iff])
    then show ?thesis by (simp del: of_int_abs)
  qed
  also have "\<dots> = 2 powi (53 + k)"
    by (simp add: power_int_add)
  finally have hi: "\<bar>x\<bar> < 2 powi (53 + k)" .
  from lo hi have "(2::real) powi e < 2 powi (53 + k)" by simp
  then have "e < 53 + k"
    by (metis linorder_not_le one_le_numeral power_int_increasing)
  with k have qk: "q \<le> k" by (simp add: q_def)
  define N where "N = m * 2 ^ nat (k - q)"
  have "x / 2 powi q = real_of_int m * 2 powi (k - q)"
    by (simp add: x power_int_diff)
  also have "\<dots> = real_of_int m * 2 ^ nat (k - q)"
    using qk by (simp add: power_int_def)
  finally have y: "x / 2 powi q = real_of_int N"
    by (simp add: N_def)
  have restore: "real_of_int N * 2 powi q = x"
    using y by (simp add: field_simps)
  have "round64 x =
          real_of_int (if real_of_int N - real_of_int N < 1 / 2 then N
                       else if real_of_int N - real_of_int N > 1 / 2 then N + 1
                       else if even N then N else N + 1) * 2 powi q"
    by (simp only: round64_def Let_def False if_False e_def [symmetric] q_def [symmetric]
          y floor_of_int)
  also have "\<dots> = real_of_int N * 2 powi q" by simp
  finally show ?thesis using restore by simp
qed

text \<open>The rounding of a value whose exponent \<open>e\<close> is known.\<close>

lemma round64_at:
  assumes lo: "2 powi e \<le> \<bar>x\<bar>" and hi: "\<bar>x\<bar> < 2 powi (e + 1)"
  shows "round64 x =
           (let q = max (e - 52) (- 1074);
                y = x / 2 powi q;
                f = \<lfloor>y\<rfloor>;
                d = y - real_of_int f;
                n = (if d < 1 / 2 then f
                     else if d > 1 / 2 then f + 1
                     else if even f then f else f + 1)
            in real_of_int n * 2 powi q)"
proof -
  have "(0::real) < 2 powi e" by simp
  with lo have pos: "0 < \<bar>x\<bar>" by linarith
  then have x0: "x \<noteq> 0" by simp
  have p1: "(2::real) powr real_of_int e = 2 powi e"
    by (rule powr_real_of_int') simp_all
  have p2: "(2::real) powr real_of_int (e + 1) = 2 powi (e + 1)"
    by (rule powr_real_of_int') simp_all
  have "2 powr real_of_int e \<le> \<bar>x\<bar> \<and> \<bar>x\<bar> < 2 powr real_of_int (e + 1)"
    unfolding p1 p2 using lo hi by blast
  then have fl: "\<lfloor>log 2 \<bar>x\<bar>\<rfloor> = e"
    by (rule iffD2 [OF floor_log_eq_powr_iff [OF pos], rotated]) simp
  show ?thesis
    unfolding round64_def fl using x0 by (simp only: if_False Let_def)
qed

lemma round64_int: "\<bar>i\<bar> < 2 ^ 53 \<Longrightarrow> round64 (real_of_int i) = real_of_int i"
  by (rule round64_exact [of _ i 0]) simp_all

lemma round64_dyadic:
  assumes "j \<le> 1074"
  shows "numeral n < (2::int) ^ 53 \<Longrightarrow> round64 (numeral n / 2 ^ j) = numeral n / 2 ^ j"
    and "round64 (1 / 2 ^ j) = 1 / 2 ^ j"
proof -
  from assms have j: "- 1074 \<le> - int j" by simp
  show "numeral n < (2::int) ^ 53 \<Longrightarrow> round64 (numeral n / 2 ^ j) = numeral n / 2 ^ j"
    by (rule round64_exact [of _ "numeral n" "- int j", OF _ _ j])
       (simp_all add: power_int_minus field_simps)
  show "round64 (1 / 2 ^ j) = 1 / 2 ^ j"
    by (rule round64_exact [of _ 1 "- int j", OF _ _ j])
       (simp_all add: power_int_minus field_simps)
qed

lemma round64_values:
  "round64 0 = 0" "round64 1 = 1"
  "numeral n < (2::int) ^ 53 \<Longrightarrow> round64 (numeral n) = numeral n"
  "numeral n < (2::int) ^ 53 \<Longrightarrow> round64 (numeral n / 2) = numeral n / 2"
  "numeral n < (2::int) ^ 53 \<Longrightarrow> round64 (numeral n / 4) = numeral n / 4"
  "numeral n < (2::int) ^ 53 \<Longrightarrow> round64 (numeral n / 8) = numeral n / 8"
  "round64 (1 / 2) = 1 / 2" "round64 (1 / 4) = 1 / 4" "round64 (1 / 8) = 1 / 8"
  using round64_int [of 0] round64_int [of 1] round64_int [of "numeral n"]
    round64_dyadic(1) [of 1 n] round64_dyadic(1) [of 2 n] round64_dyadic(1) [of 3 n]
    round64_dyadic(2) [of 1] round64_dyadic(2) [of 2] round64_dyadic(2) [of 3]
  by simp_all

subsection \<open>Slices and skipped regions\<close>

lemma removeSamples_nat:
  assumes "c + a \<le> length ms" "go_len ms < 2 ^ 63"
  shows "removeSamples ms (int c) (int a) = Inr (take c ms @ drop (c + a) ms)"
proof -
  let ?n = "length ms"
  have "sub64 (go_len ms) (int a) = go_len ms - int a"
    using assms by (simp add: sub64_def wrap64_id go_len_def)
  then have mk: "go_make (sub64 (go_len ms) (int a)) = Inr (replicate (?n - a) 0)"
    using assms by (simp add: go_make_def go_len_def nat_diff_distrib)
  have s1: "slice_to (replicate (?n - a) (0::int32)) (int c) = Inr (replicate c 0)"
    using assms by (simp add: slice_to_def go_len_def min_def)
  have s2: "slice_to ms (int c) = Inr (take c ms)"
    using assms by (simp add: slice_to_def go_len_def)
  have new1: "go_copy (replicate c (0::int32)) (take c ms) @ drop c (replicate (?n - a) 0)
                = take c ms @ replicate (?n - a - c) 0"
    using assms by (simp add: go_copy_def min_def)
  have s3: "slice_from (take c ms @ replicate (?n - a - c) (0::int32)) (int c)
              = Inr (replicate (?n - a - c) 0)"
    using assms by (simp add: slice_from_def go_len_def min_def)
  have "add64 (int c) (int a) = int c + int a"
    using assms by (simp add: add64_def wrap64_id go_len_def)
  then have s4: "slice_from ms (add64 (int c) (int a)) = Inr (drop (c + a) ms)"
    using assms by (simp add: slice_from_def go_len_def nat_add_distrib)
  have fin: "take c (take c ms @ replicate (?n - a - c) (0::int32))
               @ go_copy (replicate (?n - a - c) 0) (drop (c + a) ms)
             = take c ms @ drop (c + a) ms"
    using assms by (simp add: go_copy_def min_def)
  show ?thesis
    unfolding removeSamples_def mk sum.case s1 s2 nat_int Let_def new1 s3 s4 fin ..
qed

lemma removeSamples_ok:
  assumes "0 \<le> c" "0 \<le> a" "c + a \<le> go_len ms" "go_len ms < 2 ^ 63"
  shows "removeSamples ms c a = Inr (take (nat c) ms @ drop (nat (c + a)) ms)"
proof -
  from assms have "nat c + nat a \<le> length ms"
    by (simp add: go_len_def)
  from removeSamples_nat [OF this assms(4)] assms show ?thesis
    by (simp add: nat_add_distrib)
qed

lemma endSampleOf_le: "endSampleOf ad r n \<le> n"
  by (simp add: endSampleOf_def Let_def)

lemma cutRegion_skip: "Duration r \<le> k \<Longrightarrow> cutRegion ad k r st = Inr st"
  by (simp add: cutRegion_def split: prod.splits)

lemma cutLoop_skip_all:
  "(\<And>r. r \<in> set rs \<Longrightarrow> Duration r \<le> k) \<Longrightarrow> cutLoop ad k rs st = Inr st"
  by (induction rs) (simp_all add: cutRegion_skip)

lemma initial_copy:
  "go_make (go_len xs) = Inr (replicate (length xs) 0)"
  "go_copy (replicate (length xs) z) xs = xs"
  by (simp_all add: go_make_def go_len_def go_copy_def)

subsection \<open>An input on which the rounding decides a frame\<close>

text \<open>
  Four mono samples at 10 Hz, the region of frames 0 to 3 and 100 ms to keep. In exact
  arithmetic \<open>(3/10 - 1/10) \<cdot> 10\<close> is 2; in binary64 the difference is
  \<open>7205759403792793 / 2\<^sup>5\<^sup>5\<close>, its product with 10 rounds to the number just below 2,
  and \<^verbatim>\<open>cutFrames\<close> is 1.
\<close>

lemma keepDurationSecOf_100:
  "keepDurationSecOf 100 = 3602879701896397 / 36028797018963968"
proof -
  have "round64 (1 / 10) = 3602879701896397 / 36028797018963968"
    using round64_at [of "- 4" "1 / 10"] by (simp add: power_int_minus Let_def)
  then show ?thesis
    by (simp add: keepDurationSecOf_def fdiv_def fromInt64_def round64_values)
qed

lemma tenHz_cutSamples:
  "cutSamplesOf tenHzAudio (keepDurationSecOf 100) tenHzRegion = 1"
proof -
  have d: "round64 (7205759403792793 / 36028797018963968)
             = 7205759403792793 / 36028797018963968"
    by (rule round64_exact [of _ 7205759403792793 "- 55"]) (simp_all add: power_int_minus)
  have p: "round64 (36028797018963965 / 18014398509481984)
             = 9007199254740991 / 4503599627370496"
    using round64_at [of 0 "36028797018963965 / 18014398509481984"]
    by (simp add: power_int_minus Let_def)
  show ?thesis
    by (simp add: cutSamplesOf_def keepDurationSecOf_100 tenHzAudio_def tenHzRegion_def
          fsub_def fmul_def fromInt64_def round64_values d p go_int_def mul64_def wrap64_def
          Let_def)
qed

lemma tenHz_keepSamples:
  "keepSamplesOf tenHzAudio (keepDurationSecOf 100) = 1"
proof -
  have p: "round64 (18014398509481985 / 18014398509481984) = 1"
    using round64_at [of 0 "18014398509481985 / 18014398509481984"]
    by (simp add: power_int_minus Let_def)
  show ?thesis
    by (simp add: keepSamplesOf_def keepDurationSecOf_100 tenHzAudio_def
          fmul_def fromInt64_def round64_values p go_int_def mul64_def wrap64_def Let_def)
qed

lemma tenHz_positions:
  "startSampleOf tenHzAudio tenHzRegion = 0"
  "endSampleOf tenHzAudio tenHzRegion (go_len (Samples tenHzAudio)) = 3"
  "go_len (Samples tenHzAudio) = 4"
  "keepDurationSecOf 100 < Duration tenHzRegion"
  by (simp_all add: startSampleOf_def endSampleOf_def tenHzAudio_def tenHzRegion_def
        keepDurationSecOf_100 mul64_def wrap64_def go_len_def Let_def)

subsection \<open>Claims about the Region Excisor\<close>

lemmas cut_defs =
  CutSilenceRegions_def cutRegion_def removeSamples_def go_make_def go_len_def go_copy_def
  slice_to_def slice_from_def go_int_def cutSamplesOf_def keepSamplesOf_def endSampleOf_def
  startSampleOf_def cutStartSampleOf_def actualCutSamplesOf_def keepDurationSecOf_def
  samplesDuration_def fromInt64_def fadd_def fsub_def fmul_def fdiv_def
  add64_def sub64_def mul64_def wrap64_def round64_values
  createSilenceRegion_def pcmAudio_def Let_def

text \<open>
  \<^bold>\<open>C1\<close> (keep exceeds the span). The claim: a region longer than the keep duration whose
  clamped sample span is smaller than \<^verbatim>\<open>keepSamples\<close> is left unmodified. The code
  does not do that. On four mono samples at 8 Hz with the region of frames 2 to 10
  (duration 1 s) and 500 ms to keep, \<^verbatim>\<open>endSample\<close> is clamped to 4, the span of 2 samples
  is below \<^verbatim>\<open>keepSamples = 4\<close>, line 66 moves \<^verbatim>\<open>cutStartSample\<close> back to \<^verbatim>\<open>startSample\<close>,
  and lines 71-81 then delete both samples of the region: the buffer that comes back
  is \<open>[1, 2]\<close>.
\<close>

theorem overhang_region_is_cut:
  "keepDurationSecOf 500 < Duration overhangRegion
   \<and> endSampleOf shortAudio overhangRegion (go_len (Samples shortAudio))
        - startSampleOf shortAudio overhangRegion
       < keepSamplesOf shortAudio (keepDurationSecOf 500)
   \<and> map_sum id (Samples \<circ> fst) (CutSilenceRegions (Some shortAudio) [overhangRegion] 500)
       = Inr [1, 2]"
  by (simp add: shortAudio_def overhangRegion_def cut_defs)

text \<open>
  \<^bold>\<open>C4\<close> (cut placement), as stated: the buffer after the cut is
  \<^verbatim>\<open>samples[0:cut_start] ++ samples[cut_end:]\<close>. It fails on six mono samples at 2 Hz with
  the region of frames 1 to 5 and 250 ms to keep: the region is longer than the keep
  duration and inside the buffer, \<^verbatim>\<open>keepSamples\<close> is 0, so \<^verbatim>\<open>cut_start = 1\<close> and
  \<^verbatim>\<open>cut_end = 5\<close>; the splice of the claim is \<open>[10, 15]\<close>, the code returns
  \<open>[10, 14, 15]\<close>, because lines 73-75 cut no more than \<^verbatim>\<open>cutSamples = 3\<close> samples.
\<close>

theorem splice_counterexample:
  "keepDurationSecOf 250 < Duration slowRegion
   \<and> 0 \<le> StartFrame slowRegion * Channels slowAudio
   \<and> EndFrame slowRegion * Channels slowAudio \<le> go_len (Samples slowAudio)
   \<and> keepSamplesOf slowAudio (keepDurationSecOf 250) = 0
   \<and> map_sum id (Samples \<circ> fst) (CutSilenceRegions (Some slowAudio) [slowRegion] 250)
       = Inr [10, 14, 15]
   \<and> take 1 (Samples slowAudio) @ drop 5 (Samples slowAudio) = [10, 15]"
  by (simp add: slowAudio_def slowRegion_def cut_defs)

text \<open>
  \<^bold>\<open>C4\<close>, amended. All quantities are the ones the program computes, in 64-bit integers
  and binary64: \<^verbatim>\<open>keepSamples = int(keepDurationSec * float64(SampleRate)) * Channels\<close>,
  \<^verbatim>\<open>cutSamples = int((Duration - keepDurationSec) * float64(SampleRate)) * Channels\<close>,
  \<^verbatim>\<open>cut_start = start_sample + keep_samples\<close> with the start sample clamped to 0, and
  \<^verbatim>\<open>cut_end\<close> the end sample clamped to the buffer length. For a region longer than
  the keep duration, with \<open>0 \<le> cut_start < cut_end\<close> and \<^verbatim>\<open>cutSamples\<close> positive,
  the iteration keeps everything before \<^verbatim>\<open>cut_start\<close>, so the first \<^verbatim>\<open>keep_samples\<close>
  samples of the region stay, and removes the next
  \<open>n = min (cut_end - cut_start) cutSamples\<close> samples: the buffer becomes
  \<^verbatim>\<open>samples[0:cut_start] ++ samples[cut_start+n:]\<close>. This is the splice of the claim
  exactly when \<open>cut_end - cut_start \<le> cutSamples\<close>. The removed duration grows by the
  duration of the \<open>n\<close> samples and the region is put in front of \<^verbatim>\<open>regionsCut\<close>.
  (The buffer is a Go slice: its length is below \<open>2\<^sup>6\<^sup>3\<close>.)
\<close>

theorem cut_placement:
  assumes len: "go_len ms < 2 ^ 63"
    and d: "k < Duration r"
    and c0: "0 \<le> add64 (startSampleOf ad r) (keepSamplesOf ad k)"
    and lt: "add64 (startSampleOf ad r) (keepSamplesOf ad k) < endSampleOf ad r (go_len ms)"
    and cs: "0 < cutSamplesOf ad k r"
  shows "cutRegion ad k r (ms, removed, rcut) =
           Inr (take (nat (add64 (startSampleOf ad r) (keepSamplesOf ad k))) ms
                  @ drop (nat (add64 (startSampleOf ad r) (keepSamplesOf ad k)
                                + min (endSampleOf ad r (go_len ms)
                                         - add64 (startSampleOf ad r) (keepSamplesOf ad k))
                                      (cutSamplesOf ad k r))) ms,
                fadd removed
                  (samplesDuration ad
                     (min (endSampleOf ad r (go_len ms)
                             - add64 (startSampleOf ad r) (keepSamplesOf ad k))
                          (cutSamplesOf ad k r))),
                r # rcut)"
proof -
  let ?n = "go_len ms"
  let ?c = "add64 (startSampleOf ad r) (keepSamplesOf ad k)"
  let ?e = "endSampleOf ad r ?n"
  let ?a = "min (?e - ?c) (cutSamplesOf ad k r)"
  have en: "?e \<le> ?n" by (rule endSampleOf_le)
  have c: "cutStartSampleOf ad k r ?n = ?c"
    using lt by (simp add: cutStartSampleOf_def Let_def)
  have "sub64 ?e ?c = ?e - ?c"
    using c0 lt en len by (simp add: sub64_def wrap64_id)
  then have a: "actualCutSamplesOf ad k r ?n = ?a"
    by (simp add: actualCutSamplesOf_def c Let_def min_def)
  have a0: "0 \<le> ?a" and ca: "?c + ?a \<le> ?n"
    using lt cs en by simp_all
  have rm: "removeSamples ms ?c ?a = Inr (take (nat ?c) ms @ drop (nat (?c + ?a)) ms)"
    by (rule removeSamples_ok [OF c0 a0 ca len])
  show ?thesis
    using d lt cs by (simp add: cutRegion_def c a rm Let_def)
qed

theorem cut_placement_witness:
  "go_len (Samples tenHzAudio) < 2 ^ 63
   \<and> keepDurationSecOf 100 < Duration tenHzRegion
   \<and> add64 (startSampleOf tenHzAudio tenHzRegion)
        (keepSamplesOf tenHzAudio (keepDurationSecOf 100)) = 1
   \<and> endSampleOf tenHzAudio tenHzRegion (go_len (Samples tenHzAudio)) = 3
   \<and> cutSamplesOf tenHzAudio (keepDurationSecOf 100) tenHzRegion = 1
   \<and> cutRegion tenHzAudio (keepDurationSecOf 100) tenHzRegion (Samples tenHzAudio, 0, [])
        = Inr ([1, 3, 4], 3602879701896397 / 36028797018963968, [tenHzRegion])
   \<and> map_sum id (Samples \<circ> fst) (CutSilenceRegions (Some tenHzAudio) [tenHzRegion] 100)
        = Inr [1, 3, 4]"
proof -
  let ?k = "keepDurationSecOf 100"
  have c: "add64 (startSampleOf tenHzAudio tenHzRegion) (keepSamplesOf tenHzAudio ?k) = 1"
    by (simp add: tenHz_positions tenHz_keepSamples add64_def wrap64_def)
  have h1: "go_len (Samples tenHzAudio) < 2 ^ 63"
    by (simp add: tenHz_positions)
  have h2: "?k < Duration tenHzRegion"
    by (rule tenHz_positions)
  have h3: "0 \<le> add64 (startSampleOf tenHzAudio tenHzRegion) (keepSamplesOf tenHzAudio ?k)"
    by (simp add: c)
  have h4: "add64 (startSampleOf tenHzAudio tenHzRegion) (keepSamplesOf tenHzAudio ?k)
              < endSampleOf tenHzAudio tenHzRegion (go_len (Samples tenHzAudio))"
    unfolding c tenHz_positions(2) by simp
  have h5: "0 < cutSamplesOf tenHzAudio ?k tenHzRegion"
    by (simp add: tenHz_cutSamples)
  have r: "round64 (1 / 10) = 3602879701896397 / 36028797018963968"
    using keepDurationSecOf_100
    by (simp add: keepDurationSecOf_def fdiv_def fromInt64_def round64_values)
  have i: "round64 (3602879701896397 / 36028797018963968)
             = 3602879701896397 / 36028797018963968"
    by (rule round64_exact [of _ 3602879701896397 "- 55"]) (simp_all add: power_int_minus)
  have t: "fadd 0 (samplesDuration tenHzAudio 1) = 3602879701896397 / 36028797018963968"
    by (simp add: fadd_def samplesDuration_def fdiv_def fromInt64_def round64_values
          tenHzAudio_def r i)
  have s: "Samples tenHzAudio = [1, 2, 3, 4]"
    by (simp add: tenHzAudio_def)
  from cut_placement [OF h1 h2 h3 h4 h5, of 0 "[]",
                      unfolded c tenHz_positions(2) tenHz_cutSamples]
  have step: "cutRegion tenHzAudio ?k tenHzRegion (Samples tenHzAudio, 0, [])
          = Inr ([1, 3, 4], 3602879701896397 / 36028797018963968, [tenHzRegion])"
    by (simp add: t s)
  have "go_copy (replicate (length (Samples tenHzAudio)) 0) (Samples tenHzAudio)
          = Samples tenHzAudio"
    by (rule initial_copy)
  then have "map_sum id (Samples \<circ> fst) (CutSilenceRegions (Some tenHzAudio) [tenHzRegion] 100)
          = Inr [1, 3, 4]"
    by (simp add: CutSilenceRegions_def initial_copy(1) step Let_def)
  with h1 h2 c tenHz_positions(2) tenHz_cutSamples step show ?thesis by blast
qed

text \<open>
  \<^bold>\<open>C8\<close> (keep-duration idempotence). If no region is longer than the keep duration
  \<^verbatim>\<open>keepDurationSec = float64(keepDurationMs) / 1000.0\<close>, every iteration takes the
  \<^verbatim>\<open>continue\<close> of line 42: the samples that come back are the samples that went in,
  \<^verbatim>\<open>RemovedDuration\<close> is 0 and \<^verbatim>\<open>RegionsCut\<close> is empty. (The \<^verbatim>\<open>Duration\<close> field of the
  buffer is recomputed from the unchanged length.)
\<close>

theorem keep_duration_noop:
  assumes "list_all (\<lambda>r. Duration r \<le> keepDurationSecOf keepDurationMs) silenceRegions"
  shows "CutSilenceRegions (Some ad) silenceRegions keepDurationMs =
           Inr (ad\<lparr>AudioDuration := samplesDuration ad (go_len (Samples ad))\<rparr>,
                \<lparr>OriginalDuration = AudioDuration ad,
                 NewDuration = samplesDuration ad (go_len (Samples ad)),
                 RemovedDuration = 0, RegionsCut = [],
                 KeepDurationMs = keepDurationMs, ResultFilename = Filename ad\<rparr>)"
proof -
  from assms have "\<And>r. r \<in> set (rev silenceRegions)
                     \<Longrightarrow> Duration r \<le> keepDurationSecOf keepDurationMs"
    by (simp add: list_all_iff)
  then have "cutLoop ad (keepDurationSecOf keepDurationMs) (rev silenceRegions)
               (Samples ad, 0, []) = Inr (Samples ad, 0, [])"
    by (rule cutLoop_skip_all)
  then show ?thesis
    by (simp add: CutSilenceRegions_def initial_copy Let_def)
qed

theorem keep_duration_noop_witness:
  "Duration shortRegion \<le> keepDurationSecOf 250
   \<and> map_sum id (\<lambda>(ad', res). (Samples ad', RemovedDuration res, RegionsCut res))
        (CutSilenceRegions (Some stereoAudio) [shortRegion] 250)
       = Inr ([1, 2, 3, 4, 5, 6, 7, 8, 9, 10, 11, 12], 0, [])"
proof -
  have h: "list_all (\<lambda>r. Duration r \<le> keepDurationSecOf 250) [shortRegion]"
    by (simp add: shortRegion_def cut_defs)
  from keep_duration_noop [OF h, of stereoAudio] h show ?thesis
    by (simp add: stereoAudio_def pcmAudio_def)
qed

text \<open>
  \<^bold>\<open>C9\<close> (length consistency). The claim: every iteration removes a whole number of
  frames, and the frame count drops by their sum. The same missing case breaks it. On
  two frames of three channels at 8 Hz, with nothing to keep and the region from frame
  0 to frame \<open>(2\<^sup>6\<^sup>4 + 2) / 3\<close> (duration 1 s), \<^verbatim>\<open>EndFrame * Channels\<close> of line 52
  wraps to 2, which lies inside the buffer and is not a multiple of 3; lines 71-81
  remove the samples 0 and 1, two thirds of a frame. Four samples come back: the frame
  count went from 2 to 1 although no whole frame was removed, and the buffer no longer
  holds whole frames.
\<close>

theorem far_region_splits_a_frame:
  "0 < Channels threeChannelAudio
   \<and> go_len (Samples threeChannelAudio) mod Channels threeChannelAudio = 0
   \<and> GetFrameCount threeChannelAudio = 2
   \<and> map_sum id (\<lambda>(ad', res). (Samples ad', GetFrameCount ad', RegionsCut res))
        (CutSilenceRegions (Some threeChannelAudio) [farRegion] 0)
       = Inr ([3, 4, 5, 6], 1, [farRegion])"
  by (simp add: threeChannelAudio_def farRegion_def cut_defs GetFrameCount_def go_div_def)

text \<open>
  \<^bold>\<open>C10\<close> (no index out of bounds). The claim: for a buffer that is not nil, a keep
  duration that is not negative and any list of regions, also regions outside the
  buffer, no slice index leaves the buffer. The code misses one case. On twelve mono
  samples at 8 Hz with 500 ms to keep and the region of frames \<open>2\<^sup>6\<^sup>3 - 4\<close> to
  \<open>2\<^sup>6\<^sup>3 - 1\<close> (duration 1 s), \<^verbatim>\<open>startSample + keepSamples\<close> of line 64 is
  \<open>2\<^sup>6\<^sup>3 - 4 + 4\<close> and wraps to \<open>-2\<^sup>6\<^sup>3\<close>; this is not above \<^verbatim>\<open>endSample = 12\<close>, so
  the fallback of line 65 is not taken, the guard of line 71 holds,
  \<^verbatim>\<open>actualCutSamples\<close> wraps to \<open>12 - 2\<^sup>6\<^sup>3\<close>, and \<^verbatim>\<open>make\<close> of line 78 is called with the
  length \<open>-2\<^sup>6\<^sup>3\<close>: a panic.
\<close>

theorem last_frames_region_panics:
  "(0::int) \<le> 500
   \<and> CutSilenceRegions (Some twelveAudio) [lastFramesRegion] 500 = Inl MakeOutOfRange"
  by (simp add: twelveAudio_def lastFramesRegion_def cut_defs)

section \<open>Properties of the Common Silence Detector\<close>

subsection \<open>The scan reads no sample outside a buffer\<close>






subsection \<open>The scan ends, and what it returns\<close>





subsection \<open>Evaluation on the two tracks\<close>

lemmas detect_defs =
  DetectCommonSilence_def isChunkSilent_def GetFrameCount_def go_div_def go_len_def
  normalizationFactor_def createSilenceRegion_def pcmAudio_def Let_def


subsection \<open>Claims about the Common Silence Detector\<close>








subsection \<open>Claims about the classifier and the energy\<close>

text \<open>
  \<^bold>\<open>C5\<close> (guaranteed silence). A frame range that is empty or inverted, or that ends
  after the last frame of the buffer, or whose RMS energy is 0, is silent whatever
  the threshold is.
\<close>

theorem silent_guaranteed:
  assumes "startFrame \<ge> endFrame \<or> endFrame > GetFrameCount audioData
           \<or> chunkRMS audioData startFrame endFrame = Inr 0"
  shows "isChunkSilent audioData startFrame endFrame thresholdDBFS = Inr True"
proof (cases "startFrame \<ge> endFrame \<or> endFrame > GetFrameCount audioData")
  case True
  then show ?thesis by (simp add: isChunkSilent_def)
next
  case False
  with assms have "chunkRMS audioData startFrame endFrame = Inr 0" by blast
  with False show ?thesis
    by (auto simp: isChunkSilent_def chunkRMS_def Let_def split: sum.splits if_splits)
qed

theorem silent_guaranteed_witness:
  "chunkRMS quietTrack 0 2 = Inr 0 \<and> isChunkSilent quietTrack 0 2 (- 120) = Inr True
   \<and> GetFrameCount clickTrack < 9 \<and> isChunkSilent clickTrack 0 9 (- 120) = Inr True
   \<and> isChunkSilent clickTrack 0 1 (- 120) = Inr False"
proof -
  have h1: "chunkRMS quietTrack 0 2 = Inr 0"
    by (simp add: quietTrack_def chunkRMS_def pcmAudio_def go_len_def
          normalizationFactor_def Let_def upto.simps)
  have h2: "GetFrameCount clickTrack < 9"
    by (simp add: clickTrack_def pcmAudio_def GetFrameCount_def go_div_def go_len_def)
  have l: "isChunkSilent clickTrack 0 1 (- 120) = Inr False"
    by (simp add: clickTrack_def detect_defs)
  from silent_guaranteed [where startFrame = 0 and endFrame = 2 and audioData = quietTrack
                            and thresholdDBFS = "- 120"] h1
    silent_guaranteed [where startFrame = 0 and endFrame = 9 and audioData = clickTrack
                         and thresholdDBFS = "- 120"] h2 l
  show ?thesis by simp
qed

text \<open>
  \<^bold>\<open>C2\<close> (clamping). The claim: both RMS computations clamp a normalized sample to
  \<open>[-1, 1]\<close> before squaring. \<^verbatim>\<open>calculateRMSWithBitDepth\<close> does (lines 79-83);
  \<^verbatim>\<open>isChunkSilent\<close> squares the quotient as it is (lines 160-161). On a 16-bit buffer
  that holds the sample 65536 the classifier computes the energy 2 and, at a threshold
  of 0 dBFS, answers "not silent"; the loudness measurement of the same samples clamps
  the quotient 2 to 1 and computes the energy 1, which is 0 dBFS.
\<close>

theorem chunk_energy_not_clamped:
  "chunkRMS loudAudio 0 1 = Inr 2
   \<and> isChunkSilent loudAudio 0 1 0 = Inr False
   \<and> calculateRMSWithBitDepth (Samples loudAudio) (BitDepth loudAudio) = 1"
  by (simp add: loudAudio_def chunkRMS_def calculateRMSWithBitDepth_def detect_defs)

end
